theory Spec2Isabelle
  imports Complex_Main
begin

section \<open>Batch collation (helpers/training/collate.py)\<close>

text \<open>
  A shallow embedding of \<^verbatim>\<open>collate.py\<close>. Every \<^verbatim>\<open>raise\<close> of the source, and every
  Python operation that raises on the inputs considered, is a value \<open>Inl e\<close> of a sum type.
  The process-wide \<^verbatim>\<open>StateTracker\<close> lookups are fields of an environment record; the
  example dictionaries, which \<^verbatim>\<open>collate_fn\<close> mutates in place, live in a store indexed by
  object identity, so that one dictionary listed twice in a batch is one object.
\<close>

subsection \<open>Errors\<close>

text \<open>
  One constructor for each exception the modelled code can raise. The three
  \<^verbatim>\<open>ValueError\<close>s of \<^verbatim>\<open>compute_time_ids\<close>, the shape-mismatch \<^verbatim>\<open>ValueError\<close> of
  \<^verbatim>\<open>compute_latents\<close> (whose message holds the file path and the two shapes) and the
  \<^verbatim>\<open>ValueError\<close> of \<^verbatim>\<open>collate_fn\<close> are told apart by their messages.
  \<open>CacheError\<close> stands for whatever an external cache raises.
\<close>

datatype error =
    TypeError
  | IndexError
  | KeyError
  | NameError
  | ZeroDivisionError
  | RuntimeError
  | Exception_sizes_not_provided
  | ValueError_original_width
  | ValueError_original_height
  | ValueError_crop_coordinates
  | ValueError_shape_mismatch string "nat list" "nat list"
  | ValueError_multiple_batches
  | CacheError string

subsection \<open>Tensors\<close>

text \<open>
  A tensor is its shape and its elements in row-major order. The element type is a
  parameter: nothing in the code modelled here computes with latent values.
\<close>

record 'v tensor =
  shape :: "nat list"
  data :: "'v list"

text \<open>\<^verbatim>\<open>t[i]\<close>: the \<open>i\<close>-th slice along the leading dimension.\<close>

definition tensor_index :: "'v tensor \<Rightarrow> nat \<Rightarrow> error + 'v tensor" where
  "tensor_index t i =
     (case shape t of
        [] \<Rightarrow> Inl IndexError
      | n # rest \<Rightarrow>
          if i < n
          then Inr \<lparr>shape = rest,
                    data = take (prod_list rest) (drop (i * prod_list rest) (data t))\<rparr>
          else Inl IndexError)"

text \<open>Iterating a tensor yields its slices along the leading dimension; a 0-d tensor
  cannot be iterated.\<close>

definition tensor_iter :: "'v tensor \<Rightarrow> error + 'v tensor list" where
  "tensor_iter t =
     (case shape t of
        [] \<Rightarrow> Inl TypeError
      | n # rest \<Rightarrow>
          Inr (map (\<lambda>i. \<lparr>shape = rest,
                           data = take (prod_list rest) (drop (i * prod_list rest) (data t))\<rparr>)
                   [0..<n]))"

text \<open>\<^verbatim>\<open>torch.stack(ts)\<close> along dimension 0: needs a non-empty list of tensors of one
  shape.\<close>

definition torch_stack :: "'v tensor list \<Rightarrow> error + 'v tensor" where
  "torch_stack ts =
     (case ts of
        [] \<Rightarrow> Inl RuntimeError
      | t # _ \<Rightarrow>
          if list_all (\<lambda>u. shape u = shape t) ts
          then Inr \<lparr>shape = length ts # shape t, data = concat (map data ts)\<rparr>
          else Inl RuntimeError)"

text \<open>\<^verbatim>\<open>torch.zeros_like(t)\<close>.\<close>

definition zeros_like :: "('w::zero) tensor \<Rightarrow> 'w tensor" where
  "zeros_like t = \<lparr>shape = shape t, data = map (\<lambda>_. 0) (data t)\<rparr>"

subsection \<open>\<^verbatim>\<open>compute_time_ids\<close>\<close>

text \<open>
  \<open>original_size\<close> and \<open>target_size\<close> may be \<^verbatim>\<open>None\<close>, and so may the two entries of
  \<open>original_size\<close> and \<open>crop_coordinates\<close>: the source tests each of them. The steps are in
  the source's order: the two subscripts of \<open>original_size\<close> and of \<open>target_size\<close> are
  evaluated before the tests of width, height and crop coordinates. \<open>weight_dtype\<close> is the
  conversion of an integer into the element type of the result;
  \<^verbatim>\<open>torch.tensor([add_time_ids], dtype=weight_dtype)\<close> has shape \<open>(1, len(add_time_ids))\<close>.
\<close>

definition compute_time_ids ::
  "int option list option \<Rightarrow> nat list option \<Rightarrow> (int \<Rightarrow> 'w) \<Rightarrow> int \<Rightarrow> int list option
     \<Rightarrow> error + 'w tensor" where
  "compute_time_ids original_size target_size weight_dtype vae_downscale_factor crop_coordinates =
     (case (original_size, target_size) of
        (None, _) \<Rightarrow> Inl Exception_sizes_not_provided
      | (_, None) \<Rightarrow> Inl Exception_sizes_not_provided
      | (Some osz, Some tsz) \<Rightarrow>
          if length osz < 2 then Inl IndexError
          else if length tsz < 3 then Inl IndexError
          else
            let original_width = osz ! 0;
                original_height = osz ! 1;
                target_width = int (tsz ! 2) * vae_downscale_factor;
                target_height = int (tsz ! 1) * vae_downscale_factor;
                final_target_size = [target_height, target_width]
            in (case original_width of
                  None \<Rightarrow> Inl ValueError_original_width
                | Some w \<Rightarrow>
                   (case original_height of
                      None \<Rightarrow> Inl ValueError_original_height
                    | Some h \<Rightarrow>
                       (case crop_coordinates of
                          None \<Rightarrow> Inl ValueError_crop_coordinates
                        | Some crop \<Rightarrow>
                            let add_time_ids = [h, w] @ crop @ final_target_size
                            in Inr \<lparr>shape = [1, length add_time_ids],
                                     data = map weight_dtype add_time_ids\<rparr>))))"

subsection \<open>Examples, the store, the environment\<close>

text \<open>
  An example is the dictionary the dataset layer hands over. \<open>drop_conditioning\<close> is
  \<open>None\<close> while the key is absent, which it is before the dropout step has run.
  \<open>luminance\<close>, the dropout probability and the random draws are floats in the source
  and real numbers here: they are only added, divided by a length and compared.
\<close>

record example =
  image_path :: string
  data_backend_id :: string
  instance_prompt_text :: string
  original_size :: "int option list option"
  crop_coordinates :: "int list option"
  drop_conditioning :: "bool option"
  luminance :: real

text \<open>
  What a call does besides returning: a fetch task handed to the thread pool (backend id,
  file path), a batched call of the embedding cache, a call of \<open>compute_time_ids\<close> (for
  the example at that index) and the two \<^verbatim>\<open>print\<close>s of the source.
\<close>

datatype event =
    Fetch_latent string string
  | Compute_embeddings "string list"
  | Compute_time_ids nat
  | Print_mismatch string
  | Print_embeds

text \<open>
  The mutable world: the store of example objects (a batch is a list of lists of
  their addresses), the number of \<^verbatim>\<open>np.random.rand()\<close> draws taken so far, and the
  events so far.
\<close>

record state =
  heap :: "nat \<Rightarrow> example"
  draws :: nat
  trace :: "event list"

text \<open>
  The embedding cache: its \<open>model_type\<close> and its two batched lookups. The result of the
  legacy lookup is subscripted with \<open>[0]\<close> by the caller, so it is a sequence.
\<close>

record 'e embed_cache =
  model_type :: string
  compute_embeddings_for_sdxl_prompts :: "string list \<Rightarrow> error + 'e \<times> 'e"
  compute_embeddings_for_legacy_prompts :: "string list \<Rightarrow> error + 'e list"

text \<open>
  What the source reads from \<^verbatim>\<open>StateTracker\<close> and from outside:
  \<open>get_vaecache env backend_id fp\<close> is
  \<^verbatim>\<open>StateTracker.get_vaecache(id=backend_id).retrieve_from_cache(fp)\<close>;
  \<open>random_rand env k\<close> is the value of the \<open>k\<close>-th call of \<^verbatim>\<open>np.random.rand()\<close>;
  \<open>finished_early env\<close> lists the indices of the fetch tasks that finish before the caller
  starts to collect the results, in the order in which they finish.
\<close>

record ('v, 'e, 'w) env =
  caption_dropout_probability :: "real option"
  get_vaecache :: "string \<Rightarrow> string \<Rightarrow> error + 'v tensor"
  get_embedcache :: "'e embed_cache"
  get_weight_dtype :: "int \<Rightarrow> 'w"
  random_rand :: "nat \<Rightarrow> real"
  finished_early :: "nat list"

subsection \<open>\<^verbatim>\<open>extract_filepaths\<close>, \<^verbatim>\<open>fetch_latent\<close>\<close>

definition extract_filepaths :: "(nat \<Rightarrow> example) \<Rightarrow> nat list \<Rightarrow> string list" where
  "extract_filepaths h examples = map (\<lambda>a. image_path (h a)) examples"

text \<open>\<^verbatim>\<open>latent.to("cpu").pin_memory()\<close> keeps shape and elements.\<close>

definition fetch_latent :: "('v, 'e, 'w) env \<Rightarrow> string \<Rightarrow> string \<Rightarrow> error + 'v tensor" where
  "fetch_latent env fp backend_id = get_vaecache env backend_id fp"

subsection \<open>\<^verbatim>\<open>compute_latents\<close>\<close>

text \<open>
  \<^verbatim>\<open>executor.map(f, xs, ys)\<close> submits one task per pair of arguments, in order, and
  keeps the futures in a list in that order; the caller then reads the result of future
  0, 1, ... Each task writes the result slot of its own future only. The tasks listed in
  \<open>finished\<close> fill their slots in that order; a slot still empty when the caller reaches
  it is filled while the caller waits for that future.
\<close>

definition executor_map ::
  "nat list \<Rightarrow> ('a \<Rightarrow> 'b \<Rightarrow> 'c) \<Rightarrow> 'a list \<Rightarrow> 'b list \<Rightarrow> 'c list" where
  "executor_map finished f xs ys =
     (let n = min (length xs) (length ys);
          slots = fold (\<lambda>i sl. if i < n then sl[i := Some (f (xs ! i) (ys ! i))] else sl)
                       finished (replicate n None)
      in map (\<lambda>i. case slots ! i of Some r \<Rightarrow> r | None \<Rightarrow> f (xs ! i) (ys ! i)) [0..<n])"

text \<open>\<^verbatim>\<open>list(...)\<close> over the results re-raises the exception of the first task, in
  submission order, that failed.\<close>

fun collect_results :: "(error + 'a) list \<Rightarrow> error + 'a list" where
  "collect_results [] = Inr []"
| "collect_results (r # rs) =
     (case r of
        Inl e \<Rightarrow> Inl e
      | Inr x \<Rightarrow> (case collect_results rs of Inl e \<Rightarrow> Inl e | Inr ys \<Rightarrow> Inr (x # ys)))"

text \<open>Lines 99 to 102: the concurrent fetch.\<close>

definition compute_latents_fetch ::
  "('v, 'e, 'w) env \<Rightarrow> string list \<Rightarrow> string \<Rightarrow> error + 'v tensor list" where
  "compute_latents_fetch env filepaths backend_id =
     collect_results
       (executor_map (finished_early env) (fetch_latent env) filepaths
          (replicate (length filepaths) backend_id))"

text \<open>Lines 105 to 110: the shape validation. The loop raises at the first latent whose
  shape is not \<open>test_shape\<close>.\<close>

fun validate_loop :: "nat list \<Rightarrow> string list \<Rightarrow> nat \<Rightarrow> 'v tensor list \<Rightarrow> error + unit" where
  "validate_loop test_shape filepaths idx [] = Inr ()"
| "validate_loop test_shape filepaths idx (latent # rest) =
     (if shape latent \<noteq> test_shape
      then (if idx < length filepaths
            then Inl (ValueError_shape_mismatch (filepaths ! idx) (shape latent) test_shape)
            else Inl IndexError)
      else validate_loop test_shape filepaths (Suc idx) rest)"

definition compute_latents_validate :: "string list \<Rightarrow> 'v tensor list \<Rightarrow> error + unit" where
  "compute_latents_validate filepaths latents =
     (case latents of
        [] \<Rightarrow> Inl IndexError
      | first # _ \<Rightarrow> validate_loop (shape first) filepaths 0 latents)"

definition compute_latents ::
  "('v, 'e, 'w) env \<Rightarrow> string list \<Rightarrow> string \<Rightarrow> state \<Rightarrow> (error + 'v tensor) \<times> state" where
  "compute_latents env filepaths backend_id s =
     (let s1 = s\<lparr>trace := trace s @ map (Fetch_latent backend_id) filepaths\<rparr>
      in case compute_latents_fetch env filepaths backend_id of
           Inl e \<Rightarrow> (Inl e, s1)
         | Inr latents \<Rightarrow>
            (case compute_latents_validate filepaths latents of
               Inl e \<Rightarrow> (Inl e, s1)
             | Inr _ \<Rightarrow>
                (case torch_stack latents of
                   Inl e \<Rightarrow> (Inl e, s1)
                 | Inr stacked \<Rightarrow> (Inr stacked, s1))))"

subsection \<open>\<^verbatim>\<open>compute_prompt_embeddings\<close>\<close>

text \<open>\<^verbatim>\<open>torch.concat([x for _ in range(1)], dim=0)\<close> is a copy of \<open>x\<close>.\<close>

definition compute_prompt_embeddings ::
  "('v, 'e, 'w) env \<Rightarrow> string list \<Rightarrow> state \<Rightarrow> (error + 'e \<times> 'e option) \<times> state" where
  "compute_prompt_embeddings env captions s =
     (let embedcache = get_embedcache env;
          s1 = s\<lparr>trace := trace s @ [Compute_embeddings captions]\<rparr>
      in if model_type embedcache = ''sdxl''
         then (case compute_embeddings_for_sdxl_prompts embedcache captions of
                 Inl e \<Rightarrow> (Inl e, s1)
               | Inr (prompt_embeds_all, add_text_embeds_all) \<Rightarrow>
                   (Inr (prompt_embeds_all, Some add_text_embeds_all), s1))
         else (case compute_embeddings_for_legacy_prompts embedcache captions of
                 Inl e \<Rightarrow> (Inl e, s1)
               | Inr [] \<Rightarrow> (Inl IndexError, s1)
               | Inr (prompt_embeds_all # _) \<Rightarrow>
                   (Inr (prompt_embeds_all, None), s1\<lparr>trace := trace s1 @ [Print_embeds]\<rparr>)))"

subsection \<open>\<^verbatim>\<open>gather_conditional_size_features\<close>\<close>

text \<open>
  The loop over \<^verbatim>\<open>enumerate(examples)\<close>; \<open>latents\<close> is the stacked tensor, subscripted
  with the index. \<^verbatim>\<open>tuple(None)\<close> is a \<^verbatim>\<open>TypeError\<close>; the downscale factor is the
  default, 8. The examples are read, never written.
\<close>

fun gather_loop ::
  "'v tensor \<Rightarrow> (int \<Rightarrow> 'w::zero) \<Rightarrow> nat \<Rightarrow> nat list \<Rightarrow> 'w tensor list \<Rightarrow> state
     \<Rightarrow> (error + 'w tensor list) \<times> state" where
  "gather_loop latents wd idx [] batch_time_ids_list s = (Inr batch_time_ids_list, s)"
| "gather_loop latents wd idx (a # rest) batch_time_ids_list s =
     (case original_size (heap s a) of
        None \<Rightarrow> (Inl TypeError, s)
      | Some osz \<Rightarrow>
         (case tensor_index latents idx of
            Inl e \<Rightarrow> (Inl e, s)
          | Inr latent \<Rightarrow>
             (let s1 = s\<lparr>trace := trace s @ [Compute_time_ids idx]\<rparr>
              in case compute_time_ids (Some osz) (Some (shape latent)) wd 8
                        (crop_coordinates (heap s a)) of
                   Inl e \<Rightarrow> (Inl e, s1)
                 | Inr time_ids \<Rightarrow>
                    (case drop_conditioning (heap s a) of
                       None \<Rightarrow> (Inl KeyError, s1)
                     | Some d \<Rightarrow>
                         gather_loop latents wd (Suc idx) rest
                           (batch_time_ids_list @ [if d then zeros_like time_ids else time_ids])
                           s1))))"

definition gather_conditional_size_features ::
  "nat list \<Rightarrow> 'v tensor \<Rightarrow> (int \<Rightarrow> 'w::zero) \<Rightarrow> state \<Rightarrow> (error + 'w tensor) \<times> state" where
  "gather_conditional_size_features examples latents wd s =
     (case gather_loop latents wd 0 examples [] s of
        (Inl e, s1) \<Rightarrow> (Inl e, s1)
      | (Inr batch_time_ids_list, s1) \<Rightarrow>
          (case torch_stack batch_time_ids_list of
             Inl e \<Rightarrow> (Inl e, s1)
           | Inr stacked \<Rightarrow> (Inr stacked, s1)))"

subsection \<open>\<^verbatim>\<open>check_latent_shapes\<close>\<close>

text \<open>In \<open>collate_fn\<close> the argument \<open>latents\<close> is the stacked tensor: \<open>latents[0]\<close> is its
  first slice and the loop runs over its slices.\<close>

fun check_loop :: "nat list \<Rightarrow> string list \<Rightarrow> nat \<Rightarrow> 'v tensor list \<Rightarrow> state \<Rightarrow> (error + unit) \<times> state" where
  "check_loop reference_shape filepaths idx [] s = (Inr (), s)"
| "check_loop reference_shape filepaths idx (latent # rest) s =
     (if shape latent \<noteq> reference_shape
      then (if idx < length filepaths
            then check_loop reference_shape filepaths (Suc idx) rest
                   (s\<lparr>trace := trace s @ [Print_mismatch (filepaths ! idx)]\<rparr>)
            else (Inl IndexError, s))
      else check_loop reference_shape filepaths (Suc idx) rest s)"

definition check_latent_shapes :: "'v tensor \<Rightarrow> string list \<Rightarrow> state \<Rightarrow> (error + unit) \<times> state" where
  "check_latent_shapes latents filepaths s =
     (case tensor_index latents 0 of
        Inl e \<Rightarrow> (Inl e, s)
      | Inr first \<Rightarrow>
         (case tensor_iter latents of
            Inl e \<Rightarrow> (Inl e, s)
          | Inr slices \<Rightarrow> check_loop (shape first) filepaths 0 slices s))"

subsection \<open>\<^verbatim>\<open>collate_fn\<close>\<close>

text \<open>
  The dropout loop, lines 178 to 188. It carries \<open>data_backend_id\<close>, unbound (\<open>None\<close>)
  until the first iteration. The condition is evaluated left to right:
  \<^verbatim>\<open>dropout_probability > 0\<close> first, which is a \<^verbatim>\<open>TypeError\<close> when the probability is
  \<^verbatim>\<open>None\<close>; the random number is drawn only when the probability is positive.
\<close>

fun dropout_loop ::
  "('v, 'e, 'w) env \<Rightarrow> nat list \<Rightarrow> string option \<Rightarrow> state \<Rightarrow> (error + string option) \<times> state" where
  "dropout_loop env [] backend_id s = (Inr backend_id, s)"
| "dropout_loop env (a # rest) backend_id s =
     (let backend_id1 = Some (data_backend_id (heap s a))
      in case caption_dropout_probability env of
           None \<Rightarrow> (Inl TypeError, s)
         | Some p \<Rightarrow>
            if p > 0
            then (let r = random_rand env (draws s);
                      s1 = s\<lparr>draws := Suc (draws s)\<rparr>
                  in if r < p
                     then dropout_loop env rest backend_id1
                            (s1\<lparr>heap := (heap s1)
                                  (a := (heap s1 a)\<lparr>instance_prompt_text := [],
                                                     drop_conditioning := Some True\<rparr>)\<rparr>)
                     else dropout_loop env rest backend_id1
                            (s1\<lparr>heap := (heap s1)
                                  (a := (heap s1 a)\<lparr>drop_conditioning := Some False\<rparr>)\<rparr>))
            else dropout_loop env rest backend_id1
                   (s\<lparr>heap := (heap s)
                        (a := (heap s a)\<lparr>drop_conditioning := Some False\<rparr>)\<rparr>))"

text \<open>The returned dictionary.\<close>

record ('v, 'e, 'w) batch_record =
  latent_batch :: "'v tensor"
  prompt_embeds :: 'e
  add_text_embeds :: "'e option"
  batch_time_ids :: "'w tensor option"
  batch_luminance :: real

definition collate_fn ::
  "('v, 'e, 'w::zero) env \<Rightarrow> nat list list \<Rightarrow> state
     \<Rightarrow> (error + ('v, 'e, 'w) batch_record) \<times> state" where
  "collate_fn env batch s =
     (if length batch \<noteq> 1 then (Inl ValueError_multiple_batches, s)
      else
        (let examples = batch ! 0
         in (case dropout_loop env examples None s of
               (Inl e, s1) \<Rightarrow> (Inl e, s1)
             | (Inr backend_id, s1) \<Rightarrow>
                (let lums = map (\<lambda>a. luminance (heap s1 a)) examples
                 in if length lums = 0 then (Inl ZeroDivisionError, s1)
                    else
                      (let avg = sum_list lums / real (length lums);
                           filepaths = extract_filepaths (heap s1) examples
                       in (case backend_id of
                             None \<Rightarrow> (Inl NameError, s1)
                           | Some b \<Rightarrow>
                              (case compute_latents env filepaths b s1 of
                                 (Inl e, s2) \<Rightarrow> (Inl e, s2)
                               | (Inr latents, s2) \<Rightarrow>
                                  (case check_latent_shapes latents filepaths s2 of
                                     (Inl e, s3) \<Rightarrow> (Inl e, s3)
                                   | (Inr _, s3) \<Rightarrow>
                                      (let captions =
                                             map (\<lambda>a. instance_prompt_text (heap s3 a)) examples
                                       in (case compute_prompt_embeddings env captions s3 of
                                             (Inl e, s4) \<Rightarrow> (Inl e, s4)
                                           | (Inr embeds, s4) \<Rightarrow>
                                              (case snd embeds of
                                                 None \<Rightarrow>
                                                   (Inr \<lparr>latent_batch = latents,
                                                          prompt_embeds = fst embeds,
                                                          add_text_embeds = None,
                                                          batch_time_ids = None,
                                                          batch_luminance = avg\<rparr>, s4)
                                               | Some add_text_embeds_all \<Rightarrow>
                                                  (case gather_conditional_size_features examples
                                                          latents (get_weight_dtype env) s4 of
                                                     (Inl e, s5) \<Rightarrow> (Inl e, s5)
                                                   | (Inr time_ids, s5) \<Rightarrow>
                                                       (Inr \<lparr>latent_batch = latents,
                                                              prompt_embeds = fst embeds,
                                                              add_text_embeds =
                                                                Some add_text_embeds_all,
                                                              batch_time_ids = Some time_ids,
                                                              batch_luminance = avg\<rparr>,
                                                        s5)))))))))))))"

subsection \<open>A concrete batch\<close>

text \<open>
  Three examples of backend \<open>b1\<close> at addresses 0, 1 and 2, with luminance 0.2, 0.4 and
  0.6, images of 512 by 512 cropped at \<open>(0, 0)\<close>; a latent cache that serves a latent of
  shape \<open>(1, 16, 16)\<close>, filled with the length of the key, for every key of \<open>b1\<close>;
  an embedding cache that answers with the captions themselves; every random draw is one
  half; the fetch tasks 2 and 0 finish, in this order, before the caller collects.
\<close>

definition demo_heap :: "nat \<Rightarrow> example" where
  "demo_heap a =
     \<lparr>image_path = (if a = 0 then ''a.png'' else if a = 1 then ''bb.png'' else ''ccc.png''),
      data_backend_id = ''b1'',
      instance_prompt_text = ''a photo'',
      original_size = Some [Some 512, Some 512],
      crop_coordinates = Some [0, 0],
      drop_conditioning = None,
      luminance = (if a = 0 then 2 / 10 else if a = 1 then 4 / 10 else 6 / 10)\<rparr>"

definition demo_state :: state where
  "demo_state = \<lparr>heap = demo_heap, draws = 0, trace = []\<rparr>"

definition demo_latent :: "string \<Rightarrow> int tensor" where
  "demo_latent fp = \<lparr>shape = [1, 16, 16], data = replicate 256 (int (length fp))\<rparr>"

definition demo_env :: "real option \<Rightarrow> string \<Rightarrow> (int, string list, int) env" where
  "demo_env p variant =
     \<lparr>caption_dropout_probability = p,
      get_vaecache = (\<lambda>backend_id fp.
         if backend_id = ''b1'' then Inr (demo_latent fp) else Inl (CacheError fp)),
      get_embedcache =
        \<lparr>model_type = variant,
         compute_embeddings_for_sdxl_prompts = (\<lambda>captions. Inr (captions, captions)),
         compute_embeddings_for_legacy_prompts = (\<lambda>captions. Inr [captions])\<rparr>,
      get_weight_dtype = (\<lambda>x. x),
      random_rand = (\<lambda>k. 1 / 2),
      finished_early = [2, 0]\<rparr>"

text \<open>Three file paths and three latents, the second of another shape.\<close>

definition demo_filepaths :: "string list" where
  "demo_filepaths = [''a.png'', ''bb.png'', ''ccc.png'']"

definition demo_mismatched :: "int tensor list" where
  "demo_mismatched =
     [\<lparr>shape = [1, 2, 2], data = [1, 2, 3, 4]\<rparr>,
      \<lparr>shape = [1, 2, 3], data = [1, 2, 3, 4, 5, 6]\<rparr>,
      \<lparr>shape = [1, 2, 2], data = [5, 6, 7, 8]\<rparr>]"

text \<open>The three latents of the concrete batch, stacked; and the store after a dropout
  step that dropped all three examples.\<close>

definition demo_stacked :: "int tensor" where
  "demo_stacked = \<lparr>shape = [3, 1, 16, 16],
                   data = replicate 256 5 @ replicate 256 6 @ replicate 256 7\<rparr>"

definition demo_dropped :: state where
  "demo_dropped =
     \<lparr>heap = (demo_heap)
         (0 := (demo_heap 0)\<lparr>instance_prompt_text := [], drop_conditioning := Some True\<rparr>,
          1 := (demo_heap 1)\<lparr>instance_prompt_text := [], drop_conditioning := Some True\<rparr>,
          2 := (demo_heap 2)\<lparr>instance_prompt_text := [], drop_conditioning := Some True\<rparr>),
       draws = 3, trace = []\<rparr>"

section \<open>Auxiliary facts\<close>

text \<open>What each step does to the state, and what the two loops of
  \<open>compute_latents\<close> compute.\<close>

lemma dropout_loop_trace:
  "trace (snd (dropout_loop env xs b s)) = trace s"
  by (induction xs arbitrary: b s) (auto simp: Let_def split: option.splits)

lemma dropout_loop_frame:
  "image_path (heap (snd (dropout_loop env xs b s)) a) = image_path (heap s a) \<and>
   data_backend_id (heap (snd (dropout_loop env xs b s)) a) = data_backend_id (heap s a) \<and>
   original_size (heap (snd (dropout_loop env xs b s)) a) = original_size (heap s a) \<and>
   crop_coordinates (heap (snd (dropout_loop env xs b s)) a) = crop_coordinates (heap s a) \<and>
   luminance (heap (snd (dropout_loop env xs b s)) a) = luminance (heap s a)"
  by (induction xs arbitrary: b s) (auto simp: Let_def split: option.splits)

lemma compute_latents_state:
  "snd (compute_latents env fps b s) = s\<lparr>trace := trace s @ map (Fetch_latent b) fps\<rparr>"
  by (simp add: compute_latents_def Let_def split: sum.splits)

lemma compute_prompt_embeddings_state:
  "\<exists>evs. snd (compute_prompt_embeddings env caps s) = s\<lparr>trace := trace s @ evs\<rparr> \<and>
         set evs \<subseteq> {Compute_embeddings caps, Print_embeds}"
  by (auto simp: compute_prompt_embeddings_def Let_def split: sum.splits list.splits prod.splits)

lemma gather_loop_state:
  "\<exists>evs. snd (gather_loop lat wd idx xs acc s) = s\<lparr>trace := trace s @ evs\<rparr> \<and>
         set evs \<subseteq> range Compute_time_ids"
proof (induction xs arbitrary: idx acc s)
  case Nil
  show ?case by (rule exI [of _ "[]"]) simp
next
  case (Cons a xs)
  let ?s1 = "s\<lparr>trace := trace s @ [Compute_time_ids idx]\<rparr>"
  have stop: "\<exists>evs. s = s\<lparr>trace := trace s @ evs\<rparr> \<and> set evs \<subseteq> range Compute_time_ids"
    by (rule exI [of _ "[]"]) simp
  have stop1: "\<exists>evs. ?s1 = s\<lparr>trace := trace s @ evs\<rparr> \<and> set evs \<subseteq> range Compute_time_ids"
    by (rule exI [of _ "[Compute_time_ids idx]"]) simp
  have go: "\<exists>evs. snd (gather_loop lat wd (Suc idx) xs acc' ?s1) = s\<lparr>trace := trace s @ evs\<rparr>
              \<and> set evs \<subseteq> range Compute_time_ids" for acc'
  proof -
    from Cons.IH [of "Suc idx" acc' ?s1] obtain evs where
      e: "snd (gather_loop lat wd (Suc idx) xs acc' ?s1) = ?s1\<lparr>trace := trace ?s1 @ evs\<rparr>"
         "set evs \<subseteq> range Compute_time_ids" by blast
    show ?thesis
      by (rule exI [of _ "Compute_time_ids idx # evs"]) (use e in auto)
  qed
  show ?case
    using stop stop1 go
    by (simp add: Let_def split: option.splits sum.splits)
qed

lemma gather_state:
  "\<exists>evs. snd (gather_conditional_size_features xs lat wd s) = s\<lparr>trace := trace s @ evs\<rparr> \<and>
         set evs \<subseteq> range Compute_time_ids"
  using gather_loop_state [of lat wd 0 xs "[]" s]
  by (auto simp: gather_conditional_size_features_def split: prod.splits sum.splits)

lemma check_loop_same_shape:
  "list_all (\<lambda>l. shape l = ref) ls \<Longrightarrow> check_loop ref fps idx ls s = (Inr (), s)"
  by (induction ls arbitrary: idx) auto

lemma check_latent_shapes_state:
  "snd (check_latent_shapes t fps s) = s"
  by (auto simp: check_latent_shapes_def tensor_index_def tensor_iter_def check_loop_same_shape
        list_all_iff split: list.splits sum.splits if_splits)


lemma compute_latents_heap:
  "compute_latents env fps b s = (r, s') \<Longrightarrow> heap s' = heap s \<and> draws s' = draws s"
  using compute_latents_state [of env fps b s] by simp

lemma check_latent_shapes_same:
  "check_latent_shapes t fps s = (r, s') \<Longrightarrow> s' = s"
  using check_latent_shapes_state [of t fps s] by simp

lemma compute_prompt_embeddings_heap:
  "compute_prompt_embeddings env caps s = (r, s') \<Longrightarrow> heap s' = heap s \<and> draws s' = draws s"
  using compute_prompt_embeddings_state [of env caps s] by auto

lemma gather_heap:
  "gather_conditional_size_features xs lat wd s = (r, s') \<Longrightarrow> heap s' = heap s \<and> draws s' = draws s"
  using gather_state [of xs lat wd s] by auto

lemma collate_fn_heap:
  "length batch = 1 \<Longrightarrow>
     heap (snd (collate_fn env batch s)) = heap (snd (dropout_loop env (batch ! 0) None s)) \<and>
     draws (snd (collate_fn env batch s)) = draws (snd (dropout_loop env (batch ! 0) None s))"
  by (auto simp: collate_fn_def Let_def
        split: prod.splits sum.splits option.splits
        dest!: compute_latents_heap check_latent_shapes_same compute_prompt_embeddings_heap gather_heap)


lemma dropout_loop_zero:
  "caption_dropout_probability env = Some p \<Longrightarrow> p \<le> 0 \<Longrightarrow>
   \<exists>b' s'. dropout_loop env xs b s = (Inr b', s') \<and> draws s' = draws s \<and>
     (\<forall>a. instance_prompt_text (heap s' a) = instance_prompt_text (heap s a)) \<and>
     (\<forall>a\<in>set xs. drop_conditioning (heap s' a) = Some False) \<and>
     (\<forall>a. a \<notin> set xs \<longrightarrow> heap s' a = heap s a)"
proof (induction xs arbitrary: b s)
  case Nil
  then show ?case by simp
next
  case (Cons x xs)
  let ?s1 = "s\<lparr>heap := (heap s)(x := (heap s x)\<lparr>drop_conditioning := Some False\<rparr>)\<rparr>"
  from Cons.IH [OF Cons.prems, of "Some (data_backend_id (heap s x))" ?s1]
  obtain b' s' where
    r: "dropout_loop env xs (Some (data_backend_id (heap s x))) ?s1 = (Inr b', s')"
    and d: "draws s' = draws ?s1"
    and c: "\<forall>a. instance_prompt_text (heap s' a) = instance_prompt_text (heap ?s1 a)"
    and f: "\<forall>a\<in>set xs. drop_conditioning (heap s' a) = Some False"
    and u: "\<forall>a. a \<notin> set xs \<longrightarrow> heap s' a = heap ?s1 a"
    by blast
  have step: "dropout_loop env (x # xs) b s = (Inr b', s')"
    using Cons.prems r by (simp add: Let_def)
  have "drop_conditioning (heap s' x) = Some False"
  proof (cases "x \<in> set xs")
    case True
    then show ?thesis using f by blast
  next
    case False
    then show ?thesis using u by simp
  qed
  with step d c f u show ?case by auto
qed

lemma dropout_loop_one:
  "caption_dropout_probability env = Some p \<Longrightarrow> 0 < p \<Longrightarrow> \<forall>k. random_rand env k < p \<Longrightarrow>
   \<exists>b' s'. dropout_loop env xs b s = (Inr b', s') \<and>
     (\<forall>a\<in>set xs. instance_prompt_text (heap s' a) = [] \<and>
                   drop_conditioning (heap s' a) = Some True) \<and>
     (\<forall>a. a \<notin> set xs \<longrightarrow> heap s' a = heap s a)"
proof (induction xs arbitrary: b s)
  case Nil
  then show ?case by simp
next
  case (Cons x xs)
  let ?s1 = "s\<lparr>draws := Suc (draws s),
               heap := (heap s)(x := (heap s x)\<lparr>instance_prompt_text := [],
                                                drop_conditioning := Some True\<rparr>)\<rparr>"
  from Cons.IH [OF Cons.prems, of "Some (data_backend_id (heap s x))" ?s1]
  obtain b' s' where
    r: "dropout_loop env xs (Some (data_backend_id (heap s x))) ?s1 = (Inr b', s')"
    and f: "\<forall>a\<in>set xs. instance_prompt_text (heap s' a) = [] \<and>
                          drop_conditioning (heap s' a) = Some True"
    and u: "\<forall>a. a \<notin> set xs \<longrightarrow> heap s' a = heap ?s1 a"
    by blast
  have step: "dropout_loop env (x # xs) b s = (Inr b', s')"
    using Cons.prems r by (simp add: Let_def)
  have "instance_prompt_text (heap s' x) = [] \<and> drop_conditioning (heap s' x) = Some True"
  proof (cases "x \<in> set xs")
    case True
    then show ?thesis using f by blast
  next
    case False
    then show ?thesis using u by simp
  qed
  with step f u show ?case by auto
qed

lemma validate_loop_ok:
  "validate_loop ts fps k ls = Inr () \<longleftrightarrow> list_all (\<lambda>l. shape l = ts) ls"
  by (induction ls arbitrary: k) auto

lemma validate_loop_error:
  "validate_loop ts fps k ls = Inl e \<Longrightarrow> k + length ls \<le> length fps \<Longrightarrow>
   \<exists>i<length ls. (\<forall>j<i. shape (ls ! j) = ts) \<and> shape (ls ! i) \<noteq> ts \<and>
       e = ValueError_shape_mismatch (fps ! (k + i)) (shape (ls ! i)) ts"
proof (induction ls arbitrary: k)
  case Nil
  then show ?case by simp
next
  case (Cons l ls)
  show ?case
  proof (cases "shape l = ts")
    case False
    with Cons.prems have "e = ValueError_shape_mismatch (fps ! k) (shape l) ts"
      by (simp split: if_splits)
    with False show ?thesis by (intro exI [of _ 0]) simp
  next
    case True
    with Cons.prems have "validate_loop ts fps (Suc k) ls = Inl e" "Suc k + length ls \<le> length fps"
      by simp_all
    from Cons.IH [OF this] obtain i where
      i: "i < length ls" "\<forall>j<i. shape (ls ! j) = ts" "shape (ls ! i) \<noteq> ts"
         "e = ValueError_shape_mismatch (fps ! (Suc k + i)) (shape (ls ! i)) ts"
      by blast
    have "\<forall>j<Suc i. shape ((l # ls) ! j) = ts"
      using True i(2) by (auto simp: nth_Cons split: nat.splits)
    with i show ?thesis by (intro exI [of _ "Suc i"]) simp
  qed
qed

lemma fold_slots:
  "length sl = n \<Longrightarrow> \<forall>i<n. sl ! i = None \<or> sl ! i = Some (g i) \<Longrightarrow>
   length (fold (\<lambda>i sl. if i < n then sl[i := Some (g i)] else sl) fin sl) = n \<and>
   (\<forall>i<n. fold (\<lambda>i sl. if i < n then sl[i := Some (g i)] else sl) fin sl ! i = None \<or>
           fold (\<lambda>i sl. if i < n then sl[i := Some (g i)] else sl) fin sl ! i = Some (g i))"
proof (induction fin arbitrary: sl)
  case Nil
  then show ?case by simp
next
  case (Cons k fin)
  let ?sl = "if k < n then sl[k := Some (g k)] else sl"
  have "length ?sl = n" using Cons.prems by simp
  moreover have "\<forall>i<n. ?sl ! i = None \<or> ?sl ! i = Some (g i)"
    using Cons.prems by (auto simp: nth_list_update)
  ultimately show ?case using Cons.IH [of ?sl] by simp
qed

lemma executor_map_in_order:
  "executor_map fin f xs ys =
     map (\<lambda>i. f (xs ! i) (ys ! i)) [0..<min (length xs) (length ys)]"
proof -
  let ?n = "min (length xs) (length ys)"
  let ?g = "\<lambda>i. f (xs ! i) (ys ! i)"
  let ?slots = "fold (\<lambda>i sl. if i < ?n then sl[i := Some (?g i)] else sl) fin (replicate ?n None)"
  have "\<forall>i<?n. ?slots ! i = None \<or> ?slots ! i = Some (?g i)"
    using fold_slots [of "replicate ?n None" ?n ?g fin] by simp
  then have "\<forall>i<?n. (case ?slots ! i of Some r \<Rightarrow> r | None \<Rightarrow> ?g i) = ?g i"
    by (auto split: option.splits)
  then show ?thesis
    unfolding executor_map_def Let_def by (intro map_cong) auto
qed

lemma compute_latents_fetch_in_order:
  "compute_latents_fetch env fps b = collect_results (map (\<lambda>fp. fetch_latent env fp b) fps)"
proof -
  have "map (\<lambda>i. fetch_latent env (fps ! i) (replicate (length fps) b ! i)) [0..<length fps]
        = map (\<lambda>fp. fetch_latent env fp b) fps"
    by (intro nth_equalityI) simp_all
  then show ?thesis
    by (simp add: compute_latents_fetch_def executor_map_in_order)
qed

lemma collect_results_map_Inr: "collect_results (map Inr ys) = Inr ys"
  by (induction ys) auto

lemma collect_results_Inr:
  "collect_results rs = Inr ys \<Longrightarrow> rs = map Inr ys"
  by (induction rs arbitrary: ys) (auto split: sum.splits)

lemma compute_latents_fetch_nth:
  assumes "compute_latents_fetch env fps b = Inr lats"
  shows "length lats = length fps \<and> (\<forall>i<length fps. fetch_latent env (fps ! i) b = Inr (lats ! i))"
proof -
  from assms have m: "map (\<lambda>fp. fetch_latent env fp b) fps = map Inr lats"
    by (simp add: compute_latents_fetch_in_order collect_results_Inr)
  then have l: "length lats = length fps"
    using length_map by metis
  have "fetch_latent env (fps ! i) b = Inr (lats ! i)" if "i < length fps" for i
  proof -
    have "map (\<lambda>fp. fetch_latent env fp b) fps ! i = map Inr lats ! i" using m by simp
    with that l show ?thesis by simp
  qed
  with l show ?thesis by blast
qed

lemma compute_latents_fetch_total:
  assumes "\<forall>i<length fps. \<exists>l. fetch_latent env (fps ! i) b = Inr l"
  shows "\<exists>lats. compute_latents_fetch env fps b = Inr lats"
proof -
  have "\<exists>lats. map (\<lambda>fp. fetch_latent env fp b) fps = map Inr lats"
    using assms
  proof (induction fps)
    case Nil
    then show ?case by simp
  next
    case (Cons fp fps)
    from Cons.prems obtain l where l: "fetch_latent env fp b = Inr l" by fastforce
    from Cons.prems have "\<forall>i<length fps. \<exists>l. fetch_latent env (fps ! i) b = Inr l" by fastforce
    from Cons.IH [OF this] obtain lats where "map (\<lambda>fp. fetch_latent env fp b) fps = map Inr lats"
      by blast
    with l have "map (\<lambda>fp. fetch_latent env fp b) (fp # fps) = map Inr (l # lats)" by simp
    then show ?case by blast
  qed
  then show ?thesis
    by (auto simp: compute_latents_fetch_in_order collect_results_map_Inr)
qed

lemma compute_latents_validate_ok:
  "compute_latents_validate fps ls = Inr () \<longleftrightarrow> ls \<noteq> [] \<and> list_all (\<lambda>l. shape l = shape (ls ! 0)) ls"
  by (cases ls) (simp_all add: compute_latents_validate_def validate_loop_ok del: validate_loop.simps)

lemma compute_latents_validate_error:
  assumes "compute_latents_validate fps ls = Inl e" "ls \<noteq> []" "length fps = length ls"
  shows "\<exists>i<length ls. (\<forall>j<i. shape (ls ! j) = shape (ls ! 0)) \<and> shape (ls ! i) \<noteq> shape (ls ! 0) \<and>
           e = ValueError_shape_mismatch (fps ! i) (shape (ls ! i)) (shape (ls ! 0))"
proof -
  from assms(2) obtain l rest where ls: "ls = l # rest" by (cases ls) auto
  with assms(1) have "validate_loop (shape l) fps 0 ls = Inl e"
    by (simp add: compute_latents_validate_def)
  from validate_loop_error [OF this] assms(3) ls show ?thesis by simp
qed

lemma torch_stack_same_shape:
  "ls \<noteq> [] \<Longrightarrow> list_all (\<lambda>l. shape l = shape (ls ! 0)) ls \<Longrightarrow>
   torch_stack ls = Inr \<lparr>shape = length ls # shape (ls ! 0), data = concat (map data ls)\<rparr>"
  by (cases ls) (simp_all add: torch_stack_def)

lemma compute_latents_Inr:
  assumes "compute_latents env fps b s = (Inr t, s')"
  shows "\<exists>ls. compute_latents_fetch env fps b = Inr ls \<and> ls \<noteq> [] \<and>
              list_all (\<lambda>l. shape l = shape (ls ! 0)) ls \<and>
              t = \<lparr>shape = length fps # shape (ls ! 0), data = concat (map data ls)\<rparr>"
proof -
  from assms obtain ls where f: "compute_latents_fetch env fps b = Inr ls"
    by (auto simp: compute_latents_def Let_def split: sum.splits)
  with assms have v: "compute_latents_validate fps ls = Inr ()" and st: "torch_stack ls = Inr t"
    by (auto simp: compute_latents_def Let_def split: sum.splits)
  from v have ok: "ls \<noteq> []" "list_all (\<lambda>l. shape l = shape (ls ! 0)) ls"
    by (simp_all add: compute_latents_validate_ok)
  from compute_latents_fetch_nth [OF f] have "length ls = length fps" by simp
  with torch_stack_same_shape [OF ok] st f ok show ?thesis by auto
qed

lemma fetch_latent_finished_early [simp]:
  "fetch_latent (env\<lparr>finished_early := order\<rparr>) = fetch_latent env"
  by (intro ext) (simp add: fetch_latent_def)

lemma demo_fetch_latent:
  "fetch_latent (demo_env p v) fp ''b1'' = Inr (demo_latent fp)"
  by (simp add: fetch_latent_def demo_env_def)

lemma collate_fn_frame_all:
  "image_path (heap (snd (collate_fn env batch s)) a) = image_path (heap s a) \<and>
   data_backend_id (heap (snd (collate_fn env batch s)) a) = data_backend_id (heap s a) \<and>
   original_size (heap (snd (collate_fn env batch s)) a) = original_size (heap s a) \<and>
   crop_coordinates (heap (snd (collate_fn env batch s)) a) = crop_coordinates (heap s a) \<and>
   luminance (heap (snd (collate_fn env batch s)) a) = luminance (heap s a)"
proof (cases "length batch = 1")
  case True
  from collate_fn_heap [OF True, of env s]
  have "heap (snd (collate_fn env batch s)) = heap (snd (dropout_loop env (batch ! 0) None s))"
    by simp
  then show ?thesis
    using dropout_loop_frame [of env "batch ! 0" None s a] by simp
next
  case False
  then show ?thesis by (simp add: collate_fn_def)
qed

lemma compute_latents_trace:
  "compute_latents env fps b s = (r, s') \<Longrightarrow> trace s' = trace s @ map (Fetch_latent b) fps"
  using compute_latents_state [of env fps b s] by simp

lemma compute_prompt_embeddings_single:
  "model_type (get_embedcache env) \<noteq> ''sdxl'' \<Longrightarrow>
   compute_prompt_embeddings env caps s = (Inr r, s') \<Longrightarrow> snd r = None"
  by (auto simp: compute_prompt_embeddings_def Let_def split: sum.splits list.splits)

lemma compute_prompt_embeddings_trace:
  "compute_prompt_embeddings env caps s = (r, s') \<Longrightarrow>
   \<exists>evs. trace s' = trace s @ evs \<and> (\<forall>fp. Print_mismatch fp \<notin> set evs) \<and>
         (\<forall>i. Compute_time_ids i \<notin> set evs) \<and>
         (model_type (get_embedcache env) \<noteq> ''sdxl'' \<longrightarrow> (\<forall>x. r = Inr x \<longrightarrow> snd x = None))"
  using compute_prompt_embeddings_state [of env caps s]
    compute_prompt_embeddings_single [of env caps s]
  by auto

lemma gather_trace:
  "gather_conditional_size_features xs lat wd s = (r, s') \<Longrightarrow>
   \<exists>evs. trace s' = trace s @ evs \<and> (\<forall>fp. Print_mismatch fp \<notin> set evs)"
  using gather_state [of xs lat wd s] by auto

lemma dropout_loop_trace_eq:
  "dropout_loop env xs b s = (r, s') \<Longrightarrow> trace s' = trace s"
  using dropout_loop_trace [of env xs b s] by simp

lemma collate_fn_trace:
  "\<exists>evs. trace (snd (collate_fn env batch s)) = trace s @ evs \<and>
         (\<forall>fp. Print_mismatch fp \<notin> set evs) \<and>
         (model_type (get_embedcache env) \<noteq> ''sdxl'' \<longrightarrow> (\<forall>i. Compute_time_ids i \<notin> set evs))"
  by (auto simp: collate_fn_def Let_def
        split: prod.splits sum.splits option.splits
        dest!: compute_latents_trace check_latent_shapes_same compute_prompt_embeddings_trace
               gather_trace dropout_loop_trace_eq)

lemma collate_fn_dual_path:
  assumes "dropout_loop env examples None s = (Inr (Some b), s1)" and "examples \<noteq> []"
    and "compute_latents env (extract_filepaths (heap s1) examples) b s1 = (Inr latents, s2)"
    and "check_latent_shapes latents (extract_filepaths (heap s1) examples) s2 = (Inr (), s3)"
    and "compute_prompt_embeddings env (map (\<lambda>a. instance_prompt_text (heap s3 a)) examples) s3
           = (Inr (pe, Some ate), s4)"
    and "gather_conditional_size_features examples latents (get_weight_dtype env) s4
           = (Inr time_ids, s5)"
  shows "collate_fn env [examples] s =
           (Inr \<lparr>latent_batch = latents, prompt_embeds = pe, add_text_embeds = Some ate,
                  batch_time_ids = Some time_ids,
                  batch_luminance = sum_list (map (\<lambda>a. luminance (heap s1 a)) examples)
                                      / real (length examples)\<rparr>, s5)"
  using assms by (simp add: collate_fn_def Let_def)

lemma collate_fn_single_path:
  assumes "dropout_loop env examples None s = (Inr (Some b), s1)" and "examples \<noteq> []"
    and "compute_latents env (extract_filepaths (heap s1) examples) b s1 = (Inr latents, s2)"
    and "check_latent_shapes latents (extract_filepaths (heap s1) examples) s2 = (Inr (), s3)"
    and "compute_prompt_embeddings env (map (\<lambda>a. instance_prompt_text (heap s3 a)) examples) s3
           = (Inr (pe, None), s4)"
  shows "collate_fn env [examples] s =
           (Inr \<lparr>latent_batch = latents, prompt_embeds = pe, add_text_embeds = None,
                  batch_time_ids = None,
                  batch_luminance = sum_list (map (\<lambda>a. luminance (heap s1 a)) examples)
                                      / real (length examples)\<rparr>, s4)"
  using assms by (simp add: collate_fn_def Let_def)

lemma check_latent_shapes_stacked:
  "shape t = n # rest \<Longrightarrow> 0 < n \<Longrightarrow> check_latent_shapes t fps s = (Inr (), s)"
  by (simp add: check_latent_shapes_def tensor_index_def tensor_iter_def check_loop_same_shape
        list_all_iff)

lemma demo_compute_latents:
  "compute_latents (demo_env p v) [''a.png'', ''bb.png'', ''ccc.png''] ''b1'' s =
     (Inr demo_stacked,
      s\<lparr>trace := trace s @ [Fetch_latent ''b1'' ''a.png'', Fetch_latent ''b1'' ''bb.png'',
                               Fetch_latent ''b1'' ''ccc.png'']\<rparr>)"
  by (simp add: compute_latents_def compute_latents_fetch_in_order demo_fetch_latent
        compute_latents_validate_def torch_stack_def demo_latent_def demo_stacked_def)

lemma demo_dropout_one:
  "dropout_loop (demo_env (Some 1) v) [0, 1, 2] None demo_state = (Inr (Some ''b1''), demo_dropped)"
  by (simp add: demo_env_def demo_state_def demo_heap_def demo_dropped_def Let_def)

lemma demo_gather_one:
  "heap s = heap demo_dropped \<Longrightarrow>
   gather_conditional_size_features [0, 1, 2] demo_stacked (\<lambda>x. x) s =
     (Inr \<lparr>shape = [3, 1, 6], data = [0, 0, 0, 0, 0, 0, 0, 0, 0, 0, 0, 0, 0, 0, 0, 0, 0, 0]\<rparr>,
      s\<lparr>trace := trace s @ [Compute_time_ids 0, Compute_time_ids 1, Compute_time_ids 2]\<rparr>)"
  by (simp add: gather_conditional_size_features_def tensor_index_def compute_time_ids_def
        zeros_like_def torch_stack_def Let_def demo_dropped_def demo_heap_def demo_stacked_def)

lemma demo_collate_one:
  "collate_fn (demo_env (Some 1) ''sdxl'') [[0, 1, 2]] demo_state =
     (Inr \<lparr>latent_batch = demo_stacked,
          prompt_embeds = [[], [], []],
          add_text_embeds = Some [[], [], []],
          batch_time_ids = Some \<lparr>shape = [3, 1, 6],
                                  data = [0, 0, 0, 0, 0, 0, 0, 0, 0, 0, 0, 0, 0, 0, 0, 0, 0, 0]\<rparr>,
          batch_luminance = 2 / 5\<rparr>,
      demo_dropped\<lparr>trace := [Fetch_latent ''b1'' ''a.png'', Fetch_latent ''b1'' ''bb.png'',
                               Fetch_latent ''b1'' ''ccc.png'', Compute_embeddings [[], [], []],
                               Compute_time_ids 0, Compute_time_ids 1, Compute_time_ids 2]\<rparr>)"
proof -
  let ?env = "demo_env (Some 1) ''sdxl''"
  let ?s2 = "demo_dropped\<lparr>trace := [Fetch_latent ''b1'' ''a.png'', Fetch_latent ''b1'' ''bb.png'',
                               Fetch_latent ''b1'' ''ccc.png'']\<rparr>"
  let ?s4 = "?s2\<lparr>trace := trace ?s2 @ [Compute_embeddings [[], [], []]]\<rparr>"
  have fps: "extract_filepaths (heap demo_dropped) [0, 1, 2] = [''a.png'', ''bb.png'', ''ccc.png'']"
    by (simp add: extract_filepaths_def demo_dropped_def demo_heap_def)
  have caps: "map (\<lambda>a. instance_prompt_text (heap ?s2 a)) [0, 1, 2] = [[], [], []]"
    by (simp add: demo_dropped_def)
  have lat: "compute_latents ?env (extract_filepaths (heap demo_dropped) [0, 1, 2]) ''b1''
               demo_dropped = (Inr demo_stacked, ?s2)"
    unfolding fps by (simp add: demo_compute_latents demo_dropped_def)
  have chk: "check_latent_shapes demo_stacked (extract_filepaths (heap demo_dropped) [0, 1, 2]) ?s2
               = (Inr (), ?s2)"
    by (rule check_latent_shapes_stacked [where n = 3 and rest = "[1, 16, 16]"])
       (simp_all add: demo_stacked_def)
  have emb: "compute_prompt_embeddings ?env (map (\<lambda>a. instance_prompt_text (heap ?s2 a)) [0, 1, 2])
               ?s2 = (Inr ([[], [], []], Some [[], [], []]), ?s4)"
    unfolding caps by (simp add: compute_prompt_embeddings_def demo_env_def Let_def)
  have wd: "get_weight_dtype ?env = (\<lambda>x. x)" by (simp add: demo_env_def)
  have gat: "gather_conditional_size_features [0, 1, 2] demo_stacked (get_weight_dtype ?env) ?s4
               = (Inr \<lparr>shape = [3, 1, 6],
                        data = [0, 0, 0, 0, 0, 0, 0, 0, 0, 0, 0, 0, 0, 0, 0, 0, 0, 0]\<rparr>,
                  ?s4\<lparr>trace := trace ?s4 @ [Compute_time_ids 0, Compute_time_ids 1,
                                              Compute_time_ids 2]\<rparr>)"
    unfolding wd by (rule demo_gather_one) simp
  have lum: "sum_list (map (\<lambda>a. luminance (heap demo_dropped a)) [0, 1, 2]) / real (length [0::nat, 1, 2])
               = 2 / 5"
    by (simp add: demo_dropped_def demo_heap_def)
  show ?thesis
    using collate_fn_dual_path [OF demo_dropout_one _ lat chk emb gat] lum
    by (simp add: demo_dropped_def)
qed

lemma compute_latents_then_check:
  assumes "compute_latents env fps b s = (Inr stacked, s')"
  shows "check_latent_shapes stacked fps st = (Inr (), st)"
proof -
  from compute_latents_Inr [OF assms] obtain ls where
    ls: "compute_latents_fetch env fps b = Inr ls" "ls \<noteq> []"
        "stacked = \<lparr>shape = length fps # shape (ls ! 0), data = concat (map data ls)\<rparr>"
    by blast
  from compute_latents_fetch_nth [OF ls(1)] ls(2) have "0 < length fps" by auto
  with ls(3) show ?thesis
    by (intro check_latent_shapes_stacked [where n = "length fps" and rest = "shape (ls ! 0)"])
       simp_all
qed

lemma collate_fn_single_record:
  "model_type (get_embedcache env) \<noteq> ''sdxl'' \<Longrightarrow> fst (collate_fn env batch s) = Inr result \<Longrightarrow>
   add_text_embeds result = None \<and> batch_time_ids result = None"
  by (auto simp: collate_fn_def Let_def
        split: if_splits prod.splits sum.splits option.splits
        dest: compute_prompt_embeddings_single)

lemma demo_collate_legacy:
  "collate_fn (demo_env (Some 1) ''legacy'') [[0, 1, 2]] demo_state =
     (Inr \<lparr>latent_batch = demo_stacked,
          prompt_embeds = [[], [], []],
          add_text_embeds = None,
          batch_time_ids = None,
          batch_luminance = 2 / 5\<rparr>,
      demo_dropped\<lparr>trace := [Fetch_latent ''b1'' ''a.png'', Fetch_latent ''b1'' ''bb.png'',
                               Fetch_latent ''b1'' ''ccc.png'', Compute_embeddings [[], [], []],
                               Print_embeds]\<rparr>)"
proof -
  let ?env = "demo_env (Some 1) ''legacy''"
  let ?s2 = "demo_dropped\<lparr>trace := [Fetch_latent ''b1'' ''a.png'', Fetch_latent ''b1'' ''bb.png'',
                               Fetch_latent ''b1'' ''ccc.png'']\<rparr>"
  let ?s4 = "?s2\<lparr>trace := trace ?s2 @ [Compute_embeddings [[], [], []], Print_embeds]\<rparr>"
  have fps: "extract_filepaths (heap demo_dropped) [0, 1, 2] = [''a.png'', ''bb.png'', ''ccc.png'']"
    by (simp add: extract_filepaths_def demo_dropped_def demo_heap_def)
  have caps: "map (\<lambda>a. instance_prompt_text (heap ?s2 a)) [0, 1, 2] = [[], [], []]"
    by (simp add: demo_dropped_def)
  have lat: "compute_latents ?env (extract_filepaths (heap demo_dropped) [0, 1, 2]) ''b1''
               demo_dropped = (Inr demo_stacked, ?s2)"
    unfolding fps by (simp add: demo_compute_latents demo_dropped_def)
  have chk: "check_latent_shapes demo_stacked (extract_filepaths (heap demo_dropped) [0, 1, 2]) ?s2
               = (Inr (), ?s2)"
    by (rule check_latent_shapes_stacked [where n = 3 and rest = "[1, 16, 16]"])
       (simp_all add: demo_stacked_def)
  have emb: "compute_prompt_embeddings ?env (map (\<lambda>a. instance_prompt_text (heap ?s2 a)) [0, 1, 2])
               ?s2 = (Inr ([[], [], []], None), ?s4)"
    unfolding caps by (simp add: compute_prompt_embeddings_def demo_env_def Let_def)
  have lum: "sum_list (map (\<lambda>a. luminance (heap demo_dropped a)) [0, 1, 2]) / real (length [0::nat, 1, 2])
               = 2 / 5"
    by (simp add: demo_dropped_def demo_heap_def)
  show ?thesis
    using collate_fn_single_path [OF demo_dropout_one _ lat chk emb] lum
    by (simp add: demo_dropped_def)
qed

lemma gather_loop_zeros:
  "\<forall>a\<in>set xs. drop_conditioning (heap s a) = Some True \<Longrightarrow>
   list_all (\<lambda>t. list_all (\<lambda>x. x = 0) (data t)) acc \<Longrightarrow>
   gather_loop lat wd idx xs acc s = (Inr l, s') \<Longrightarrow>
   list_all (\<lambda>t. list_all (\<lambda>x. x = 0) (data t)) l"
proof (induction xs arbitrary: idx acc s)
  case Nil
  then show ?case by simp
next
  case (Cons a xs)
  let ?s1 = "s\<lparr>trace := trace s @ [Compute_time_ids idx]\<rparr>"
  from Cons.prems(3) obtain osz latent time_ids where
    st: "original_size (heap s a) = Some osz" "tensor_index lat idx = Inr latent"
        "compute_time_ids (Some osz) (Some (shape latent)) wd 8 (crop_coordinates (heap s a))
           = Inr time_ids"
    by (auto simp: Let_def split: option.splits sum.splits)
  from Cons.prems(1) have d: "drop_conditioning (heap s a) = Some True" by simp
  from Cons.prems(3) st d have
    rec: "gather_loop lat wd (Suc idx) xs (acc @ [zeros_like time_ids]) ?s1 = (Inr l, s')"
    by (simp add: Let_def)
  have h: "\<forall>a\<in>set xs. drop_conditioning (heap ?s1 a) = Some True"
    using Cons.prems(1) by simp
  have z: "list_all (\<lambda>t. list_all (\<lambda>x. x = 0) (data t)) (acc @ [zeros_like time_ids])"
    using Cons.prems(2) by (simp add: zeros_like_def list_all_iff)
  from Cons.IH [OF h z rec] show ?case .
qed

lemma gather_zeros:
  assumes "gather_conditional_size_features xs lat wd s = (Inr t, s')"
    and "\<forall>a\<in>set xs. drop_conditioning (heap s a) = Some True"
  shows "list_all (\<lambda>x. x = 0) (data t)"
proof -
  from assms(1) obtain l s1 where
    g: "gather_loop lat wd 0 xs [] s = (Inr l, s1)" and st: "torch_stack l = Inr t"
    by (auto simp: gather_conditional_size_features_def split: prod.splits sum.splits)
  from gather_loop_zeros [OF assms(2) _ g] have "list_all (\<lambda>t. list_all (\<lambda>x. x = 0) (data t)) l"
    by simp
  moreover from st have "data t = concat (map data l)"
    by (auto simp: torch_stack_def split: list.splits if_splits)
  ultimately show ?thesis by (auto simp: list_all_iff)
qed

lemma collate_fn_time_ids_zero:
  assumes "fst (collate_fn env [examples] s) = Inr result" "batch_time_ids result = Some t"
    and "\<forall>a\<in>set examples.
           drop_conditioning (heap (snd (dropout_loop env examples None s)) a) = Some True"
  shows "list_all (\<lambda>x. x = 0) (data t)"
  using assms
  apply (auto simp: collate_fn_def Let_def
        split: prod.splits sum.splits option.splits if_splits
        dest!: compute_latents_heap check_latent_shapes_same compute_prompt_embeddings_heap)
  apply (erule gather_zeros)
  apply simp
  done

lemma compute_time_ids_sized:
  "compute_time_ids (Some [Some w, Some h]) (Some [c, lh, lw]) wd f (Some [ct, cl])
   = Inr \<lparr>shape = [1, 6], data = map wd [h, w, ct, cl, int lh * f, int lw * f]\<rparr>"
  by (simp add: compute_time_ids_def)

section \<open>Properties\<close>

text \<open>
  C1. The vector computed by \<open>compute_time_ids\<close> from \<open>original_size = (width, height)\<close>,
  a latent shape \<open>(channels, latent_height, latent_width)\<close>, a downscale factor and
  \<open>crop_coordinates = (top, left)\<close> is, entry by entry in the weight dtype,
  \<open>(height, width, top, left, latent_height * factor, latent_width * factor)\<close>:
  the \<open>[h, w, h, w, h, w]\<close> order. And for a sample whose conditioning is not dropped, the
  loop of \<open>gather_conditional_size_features\<close> appends this very vector, with factor 8, to
  the rows it stacks.
\<close>

theorem compute_time_ids_order:
  "compute_time_ids (Some [Some width, Some height]) (Some [channels, latent_h, latent_w])
      weight_dtype factor (Some [crop_top, crop_left])
   = Inr \<lparr>shape = [1, 6],
          data = map weight_dtype
                   [height, width, crop_top, crop_left, int latent_h * factor, int latent_w * factor]\<rparr>
   \<and>
   (original_size (heap s a) = Some [Some width, Some height] \<and>
    crop_coordinates (heap s a) = Some [crop_top, crop_left] \<and>
    drop_conditioning (heap s a) = Some False \<and>
    tensor_index latents idx = Inr latent \<and> shape latent = [channels, latent_h, latent_w] \<longrightarrow>
    gather_loop latents weight_dtype idx (a # rest) batch_time_ids_list s =
      gather_loop latents weight_dtype (Suc idx) rest
        (batch_time_ids_list @
           [\<lparr>shape = [1, 6],
             data = map weight_dtype
                      [height, width, crop_top, crop_left, int latent_h * 8, int latent_w * 8]\<rparr>])
        (s\<lparr>trace := trace s @ [Compute_time_ids idx]\<rparr>))"
  by (simp add: compute_time_ids_sized Let_def)

text \<open>The scenario of the specification: factor 8, latent dims \<open>(16, 16)\<close>,
  \<open>original_size = (512, 512)\<close>, crop \<open>(0, 0)\<close>, kept as integers; first for
  \<open>compute_time_ids\<close> alone, then for example 0 of the concrete batch, not dropped, in the
  loop of \<open>gather_conditional_size_features\<close>.\<close>

theorem compute_time_ids_order_witness:
  "compute_time_ids (Some [Some 512, Some 512]) (Some [1, 16, 16]) (\<lambda>x. x) 8 (Some [0, 0])
     = Inr \<lparr>shape = [1, 6], data = [512, 512, 0, 0, 128, 128]\<rparr> \<and>
   original_size (demo_heap 0) = Some [Some 512, Some 512] \<and>
   crop_coordinates (demo_heap 0) = Some [0, 0] \<and>
   tensor_index demo_stacked 0 = Inr \<lparr>shape = [1, 16, 16], data = replicate 256 5\<rparr> \<and>
   gather_loop demo_stacked (\<lambda>x. x) 0 [0] []
       \<lparr>heap = demo_heap (0 := (demo_heap 0)\<lparr>drop_conditioning := Some False\<rparr>),
        draws = 0, trace = []\<rparr>
     = (Inr [\<lparr>shape = [1, 6], data = [512, 512, 0, 0, 128, 128]\<rparr>],
        \<lparr>heap = demo_heap (0 := (demo_heap 0)\<lparr>drop_conditioning := Some False\<rparr>),
         draws = 0, trace = [Compute_time_ids 0]\<rparr>)"
proof -
  let ?s = "\<lparr>heap = demo_heap (0 := (demo_heap 0)\<lparr>drop_conditioning := Some False\<rparr>),
             draws = 0, trace = []\<rparr>"
  have os: "original_size (demo_heap 0) = Some [Some 512, Some 512]"
    and cr: "crop_coordinates (demo_heap 0) = Some [0, 0]"
    by (simp_all add: demo_heap_def)
  have ti: "tensor_index demo_stacked 0 = Inr \<lparr>shape = [1, 16, 16], data = replicate 256 5\<rparr>"
    by (simp add: tensor_index_def demo_stacked_def)
  note c = compute_time_ids_order
    [where width = 512 and height = 512 and channels = 1 and latent_h = 16 and latent_w = 16
       and weight_dtype = "\<lambda>x. x" and factor = 8 and crop_top = 0 and crop_left = 0
       and s = ?s and a = 0 and latents = demo_stacked and idx = 0
       and latent = "\<lparr>shape = [1, 16, 16], data = replicate 256 5\<rparr>" and rest = "[]"
       and batch_time_ids_list = "[]"]
  from c have a: "compute_time_ids (Some [Some 512, Some 512]) (Some [1, 16, 16]) (\<lambda>x. x) 8
                    (Some [0, 0])
                  = Inr \<lparr>shape = [1, 6], data = [512, 512, 0, 0, 128, 128]\<rparr>"
    by simp
  from c os cr ti have b: "gather_loop demo_stacked (\<lambda>x. x) 0 [0] [] ?s
     = (Inr [\<lparr>shape = [1, 6], data = [512, 512, 0, 0, 128, 128]\<rparr>],
        ?s\<lparr>trace := [Compute_time_ids 0]\<rparr>)"
    by simp
  from a os cr ti b show ?thesis by simp
qed

text \<open>
  C8. Given more than one batch group in one call, \<open>collate_fn\<close> fails with the
  \<^verbatim>\<open>ValueError\<close> of its first statement (the specification's
  \<open>MultiBatchNotSupportedError\<close>), and the state it leaves is the state it was given: no
  example was touched, no random number drawn, no fetch task submitted and no embedding
  looked up.
\<close>

theorem collate_fn_multiple_batches:
  "1 < length batch \<Longrightarrow> collate_fn env batch s = (Inl ValueError_multiple_batches, s)"
  by (simp add: collate_fn_def)

theorem collate_fn_multiple_batches_witness:
  "1 < length [[0], [1::nat]] \<and>
   collate_fn (demo_env (Some 1) ''sdxl'') [[0], [1]] demo_state
     = (Inl ValueError_multiple_batches, demo_state)"
  using collate_fn_multiple_batches [of "[[0], [1]]" "demo_env (Some 1) ''sdxl''" demo_state]
  by simp

text \<open>
  C3. Given one batch group with zero examples, \<open>collate_fn\<close> fails at the division of
  the average-luminance step (Python's \<^verbatim>\<open>ZeroDivisionError\<close>, the specification's
  \<open>EmptyBatchError\<close>), whatever the environment; the state is unchanged, so no fetch task
  was submitted before.
\<close>

theorem collate_fn_zero_examples:
  "collate_fn env [[]] s = (Inl ZeroDivisionError, s)"
  by (simp add: collate_fn_def)

theorem collate_fn_zero_examples_witness:
  "collate_fn (demo_env None ''sdxl'') [[]] demo_state = (Inl ZeroDivisionError, demo_state)"
  using collate_fn_zero_examples [of "demo_env None ''sdxl''" demo_state] .

text \<open>
  C2. A dropout probability of \<^verbatim>\<open>None\<close> is meant to disable dropout, as probability
  0 does, and the loop tests \<^verbatim>\<open>dropout_probability is not None\<close>. But the test comes
  second: with a probability of \<^verbatim>\<open>None\<close> and at least one example, the first test,
  \<^verbatim>\<open>dropout_probability > 0\<close>, raises \<^verbatim>\<open>TypeError\<close>. The call fails on the first
  example and the state is the one it was given: no \<open>drop_conditioning\<close> flag is set.
\<close>

theorem collate_fn_none_probability:
  "caption_dropout_probability env = None \<Longrightarrow>
   collate_fn env [a # rest] s = (Inl TypeError, s)"
  by (simp add: collate_fn_def)

theorem collate_fn_none_probability_witness:
  "caption_dropout_probability (demo_env None ''sdxl'') = None \<and>
   collate_fn (demo_env None ''sdxl'') [[0, 1, 2]] demo_state = (Inl TypeError, demo_state)"
  using collate_fn_none_probability [of "demo_env None ''sdxl''" 0 "[1, 2]" demo_state]
  by (simp add: demo_env_def)

text \<open>
  C4. The strict validator of \<open>compute_latents\<close> (the loop after the fetch), on a non-empty
  sequence of latents with one file path each: it raises if and only if some latent has
  a shape other than that of the first; what it raises is the \<^verbatim>\<open>ValueError\<close> whose
  message holds the file path of an offending latent, that latent's shape and the shape
  of the first (the specification's \<open>ShapeMismatchError\<close>); and when it does not raise,
  every latent has the shape of the first.
\<close>

theorem compute_latents_validate_strict:
  assumes "latents \<noteq> []" and "length filepaths = length latents"
  shows
    "((\<exists>e. compute_latents_validate filepaths latents = Inl e) \<longleftrightarrow>
        (\<exists>i<length latents. shape (latents ! i) \<noteq> shape (latents ! 0))) \<and>
     (\<forall>e. compute_latents_validate filepaths latents = Inl e \<longrightarrow>
        (\<exists>i<length latents. shape (latents ! i) \<noteq> shape (latents ! 0) \<and>
           e = ValueError_shape_mismatch (filepaths ! i) (shape (latents ! i))
                 (shape (latents ! 0)))) \<and>
     (compute_latents_validate filepaths latents = Inr () \<longrightarrow>
        (\<forall>i<length latents. shape (latents ! i) = shape (latents ! 0)))"
proof -
  have ok: "compute_latents_validate filepaths latents = Inr () \<longleftrightarrow>
            (\<forall>i<length latents. shape (latents ! i) = shape (latents ! 0))"
    using assms(1) by (simp add: compute_latents_validate_ok list_all_length)
  have err: "\<exists>i<length latents. shape (latents ! i) \<noteq> shape (latents ! 0) \<and>
           e = ValueError_shape_mismatch (filepaths ! i) (shape (latents ! i)) (shape (latents ! 0))"
    if "compute_latents_validate filepaths latents = Inl e" for e
    using compute_latents_validate_error [OF that assms] by blast
  have "(\<exists>e. compute_latents_validate filepaths latents = Inl e) \<longleftrightarrow>
        compute_latents_validate filepaths latents \<noteq> Inr ()"
    by (cases "compute_latents_validate filepaths latents") auto
  with ok err show ?thesis by blast
qed

text \<open>The second of three latents has another shape: the error names \<open>bb.png\<close>.\<close>

theorem compute_latents_validate_strict_witness:
  "demo_mismatched \<noteq> [] \<and> length demo_filepaths = length demo_mismatched \<and>
   compute_latents_validate demo_filepaths demo_mismatched
     = Inl (ValueError_shape_mismatch ''bb.png'' [1, 2, 3] [1, 2, 2]) \<and>
   (\<exists>i<length demo_mismatched. shape (demo_mismatched ! i) \<noteq> shape (demo_mismatched ! 0))"
proof -
  have ne: "demo_mismatched \<noteq> []"
    by (simp add: demo_mismatched_def)
  have len: "length demo_filepaths = length demo_mismatched"
    by (simp add: demo_mismatched_def demo_filepaths_def)
  have ev: "compute_latents_validate demo_filepaths demo_mismatched
              = Inl (ValueError_shape_mismatch ''bb.png'' [1, 2, 3] [1, 2, 2])"
    by (simp add: compute_latents_validate_def demo_mismatched_def demo_filepaths_def)
  from compute_latents_validate_strict [OF ne len] ev
  have "\<exists>i<length demo_mismatched. shape (demo_mismatched ! i) \<noteq> shape (demo_mismatched ! 0)"
    by blast
  with ne len ev show ?thesis by blast
qed

text \<open>
  C7. Whatever the order in which the fetch tasks finish (\<open>order\<close>), the list that
  \<open>compute_latents\<close> builds from \<^verbatim>\<open>executor.map\<close> is the list of the fetches of the keys,
  in the order of the keys, as a sequential loop would build it. When it is a list of
  latents, it is as long as the list of keys and its \<open>i\<close>-th element is the latent fetched
  for the \<open>i\<close>-th key; it is one whenever every single fetch succeeds; and the tensor
  \<open>compute_latents\<close> returns stacks these latents in this order.
\<close>

theorem compute_latents_fetch_order:
  "compute_latents_fetch (env\<lparr>finished_early := order\<rparr>) filepaths b
     = collect_results (map (\<lambda>fp. fetch_latent env fp b) filepaths) \<and>
   (\<forall>latents. compute_latents_fetch (env\<lparr>finished_early := order\<rparr>) filepaths b = Inr latents
      \<longrightarrow> length latents = length filepaths \<and>
          (\<forall>i<length filepaths. fetch_latent env (filepaths ! i) b = Inr (latents ! i))) \<and>
   ((\<forall>i<length filepaths. \<exists>l. fetch_latent env (filepaths ! i) b = Inr l)
      \<longrightarrow> (\<exists>latents. compute_latents_fetch (env\<lparr>finished_early := order\<rparr>) filepaths b
                        = Inr latents)) \<and>
   (\<forall>stacked. fst (compute_latents (env\<lparr>finished_early := order\<rparr>) filepaths b s) = Inr stacked
      \<longrightarrow> (\<exists>latents. compute_latents_fetch (env\<lparr>finished_early := order\<rparr>) filepaths b
                        = Inr latents \<and>
            shape stacked = length filepaths # shape (latents ! 0) \<and>
            data stacked = concat (map data latents)))"
proof -
  let ?env = "env\<lparr>finished_early := order\<rparr>"
  have a: "compute_latents_fetch ?env filepaths b
            = collect_results (map (\<lambda>fp. fetch_latent env fp b) filepaths)"
    using compute_latents_fetch_in_order [of ?env filepaths b] by simp
  have b: "length latents = length filepaths \<and>
           (\<forall>i<length filepaths. fetch_latent env (filepaths ! i) b = Inr (latents ! i))"
    if "compute_latents_fetch ?env filepaths b = Inr latents" for latents
    using compute_latents_fetch_nth [OF that] by simp
  have c: "\<exists>latents. compute_latents_fetch ?env filepaths b = Inr latents"
    if "\<forall>i<length filepaths. \<exists>l. fetch_latent env (filepaths ! i) b = Inr l"
    using compute_latents_fetch_total [of filepaths ?env b] that by simp
  have d: "\<exists>latents. compute_latents_fetch ?env filepaths b = Inr latents \<and>
             shape stacked = length filepaths # shape (latents ! 0) \<and>
             data stacked = concat (map data latents)"
    if "fst (compute_latents ?env filepaths b s) = Inr stacked" for stacked
  proof -
    from that have "compute_latents ?env filepaths b s
                      = (Inr stacked, snd (compute_latents ?env filepaths b s))"
      by (metis prod.collapse)
    from compute_latents_Inr [OF this] show ?thesis by auto
  qed
  from a b c d show ?thesis by blast
qed

text \<open>Tasks 2 and 0 finish first, in this order; the latents still come in the order of
  the keys.\<close>

theorem compute_latents_fetch_order_witness:
  "fetch_latent (demo_env None ''sdxl'') ''a.png'' ''b1'' = Inr (demo_latent ''a.png'') \<and>
   fetch_latent (demo_env None ''sdxl'') ''bb.png'' ''b1'' = Inr (demo_latent ''bb.png'') \<and>
   fetch_latent (demo_env None ''sdxl'') ''ccc.png'' ''b1'' = Inr (demo_latent ''ccc.png'') \<and>
   compute_latents_fetch ((demo_env None ''sdxl'')\<lparr>finished_early := [2, 0]\<rparr>)
       demo_filepaths ''b1''
     = Inr [demo_latent ''a.png'', demo_latent ''bb.png'', demo_latent ''ccc.png'']"
proof -
  have "compute_latents_fetch ((demo_env None ''sdxl'')\<lparr>finished_early := [2, 0]\<rparr>)
          demo_filepaths ''b1''
        = collect_results
            (map (\<lambda>fp. fetch_latent (demo_env None ''sdxl'') fp ''b1'') demo_filepaths)"
    using compute_latents_fetch_order
      [where env = "demo_env None ''sdxl''" and order = "[2, 0]" and filepaths = demo_filepaths
         and b = "''b1''" and s = demo_state]
    by blast
  then have "compute_latents_fetch ((demo_env None ''sdxl'')\<lparr>finished_early := [2, 0]\<rparr>)
          demo_filepaths ''b1''
        = Inr [demo_latent ''a.png'', demo_latent ''bb.png'', demo_latent ''ccc.png'']"
    by (simp add: demo_fetch_latent demo_filepaths_def)
  then show ?thesis by (simp add: demo_fetch_latent)
qed

text \<open>
  C9. After a collation call that succeeds, every field of every example other than the
  caption (\<open>instance_prompt_text\<close>) and \<open>drop_conditioning\<close> is what it was before the
  call: \<open>image_path\<close>, \<open>data_backend_id\<close>, \<open>original_size\<close>, \<open>crop_coordinates\<close> and
  \<open>luminance\<close>.
\<close>

theorem collate_fn_frame:
  "fst (collate_fn env batch s) = Inr result \<Longrightarrow>
   image_path (heap (snd (collate_fn env batch s)) a) = image_path (heap s a) \<and>
   data_backend_id (heap (snd (collate_fn env batch s)) a) = data_backend_id (heap s a) \<and>
   original_size (heap (snd (collate_fn env batch s)) a) = original_size (heap s a) \<and>
   crop_coordinates (heap (snd (collate_fn env batch s)) a) = crop_coordinates (heap s a) \<and>
   luminance (heap (snd (collate_fn env batch s)) a) = luminance (heap s a)"
  using collate_fn_frame_all [of env batch s a] by simp

text \<open>The concrete batch with dropout probability 1: the call succeeds, the caption and
  the flag of example 1 change, its other fields do not.\<close>

theorem collate_fn_frame_witness:
  "(\<exists>result. fst (collate_fn (demo_env (Some 1) ''sdxl'') [[0, 1, 2]] demo_state) = Inr result) \<and>
   instance_prompt_text (demo_heap 1) = ''a photo'' \<and>
   instance_prompt_text
     (heap (snd (collate_fn (demo_env (Some 1) ''sdxl'') [[0, 1, 2]] demo_state)) 1) = [] \<and>
   image_path (heap (snd (collate_fn (demo_env (Some 1) ''sdxl'') [[0, 1, 2]] demo_state)) 1)
     = ''bb.png'' \<and>
   luminance (heap (snd (collate_fn (demo_env (Some 1) ''sdxl'') [[0, 1, 2]] demo_state)) 1)
     = 4 / 10"
proof -
  have ok: "fst (collate_fn (demo_env (Some 1) ''sdxl'') [[0, 1, 2]] demo_state)
    = Inr \<lparr>latent_batch = demo_stacked,
          prompt_embeds = [[], [], []],
          add_text_embeds = Some [[], [], []],
          batch_time_ids = Some \<lparr>shape = [3, 1, 6],
                                  data = [0, 0, 0, 0, 0, 0, 0, 0, 0, 0, 0, 0, 0, 0, 0, 0, 0, 0]\<rparr>,
          batch_luminance = 2 / 5\<rparr>"
    by (simp only: demo_collate_one fst_conv)
  have cap: "instance_prompt_text
     (heap (snd (collate_fn (demo_env (Some 1) ''sdxl'') [[0, 1, 2]] demo_state)) 1) = []"
    unfolding demo_collate_one by (simp add: demo_dropped_def)
  have old: "instance_prompt_text (demo_heap 1) = ''a photo''"
    by (simp add: demo_heap_def)
  from collate_fn_frame [OF ok, of 1]
  have "image_path (heap (snd (collate_fn (demo_env (Some 1) ''sdxl'') [[0, 1, 2]] demo_state)) 1)
          = ''bb.png'' \<and>
        luminance (heap (snd (collate_fn (demo_env (Some 1) ''sdxl'') [[0, 1, 2]] demo_state)) 1)
          = 4 / 10"
    by (simp add: demo_state_def demo_heap_def)
  with ok cap old show ?thesis by blast
qed

text \<open>
  C10. \<open>check_latent_shapes\<close>, given a tensor, prints nothing and changes nothing, whatever
  the tensor and the file paths: all slices of a tensor along its leading dimension have
  one shape. Given the stacked tensor that \<open>compute_latents\<close> returned, it also returns
  normally. So no call of \<open>collate_fn\<close> adds a \<open>Print_mismatch\<close> event.
\<close>

theorem check_latent_shapes_never_prints:
  "snd (check_latent_shapes latents filepaths st) = st \<and>
   (fst (compute_latents env filepaths b s0) = Inr latents \<longrightarrow>
      check_latent_shapes latents filepaths st = (Inr (), st)) \<and>
   (\<exists>evs. trace (snd (collate_fn env batch s)) = trace s @ evs \<and>
          (\<forall>fp. Print_mismatch fp \<notin> set evs))"
proof -
  have a: "snd (check_latent_shapes latents filepaths st) = st"
    by (rule check_latent_shapes_state)
  have b: "check_latent_shapes latents filepaths st = (Inr (), st)"
    if "fst (compute_latents env filepaths b s0) = Inr latents"
  proof -
    from that have "compute_latents env filepaths b s0
                      = (Inr latents, snd (compute_latents env filepaths b s0))"
      by (metis prod.collapse)
    then show ?thesis by (rule compute_latents_then_check)
  qed
  from collate_fn_trace [of env batch s] obtain evs where
    "trace (snd (collate_fn env batch s)) = trace s @ evs" "\<forall>fp. Print_mismatch fp \<notin> set evs"
    by blast
  with a b show ?thesis by blast
qed

text \<open>The concrete batch: the stacked latents pass the check, and the events of the whole
  call hold no mismatch message.\<close>

theorem check_latent_shapes_never_prints_witness:
  "fst (compute_latents (demo_env (Some 1) ''sdxl'') [''a.png'', ''bb.png'', ''ccc.png''] ''b1''
          demo_dropped) = Inr demo_stacked \<and>
   check_latent_shapes demo_stacked [''a.png'', ''bb.png'', ''ccc.png''] demo_dropped
     = (Inr (), demo_dropped) \<and>
   (\<forall>fp. Print_mismatch fp \<notin>
      set (trace (snd (collate_fn (demo_env (Some 1) ''sdxl'') [[0, 1, 2]] demo_state))))"
proof -
  have f: "fst (compute_latents (demo_env (Some 1) ''sdxl'') [''a.png'', ''bb.png'', ''ccc.png'']
                  ''b1'' demo_dropped) = Inr demo_stacked"
    by (simp only: demo_compute_latents fst_conv)
  have t0: "trace demo_state = []" by (simp add: demo_state_def)
  from check_latent_shapes_never_prints
    [of demo_stacked "[''a.png'', ''bb.png'', ''ccc.png'']" demo_dropped
        "demo_env (Some 1) ''sdxl''" "''b1''" demo_dropped "[[0, 1, 2]]" demo_state] f t0
  show ?thesis by auto
qed

text \<open>
  C6. Under the single-embedding variant (the \<open>model_type\<close> of the embedding cache is not
  \<open>sdxl\<close>), whenever \<open>compute_prompt_embeddings\<close> returns, the pooled component is
  \<^verbatim>\<open>None\<close>; \<open>collate_fn\<close> then makes no call of \<open>compute_time_ids\<close>, whether it succeeds or
  fails, and a record it returns has \<^verbatim>\<open>None\<close> in \<open>add_text_embeds\<close> and in
  \<open>batch_time_ids\<close>.
\<close>

theorem collate_fn_single_variant:
  "model_type (get_embedcache env) \<noteq> ''sdxl'' \<Longrightarrow>
   (\<forall>captions st embeds st'.
       compute_prompt_embeddings env captions st = (Inr embeds, st') \<longrightarrow> snd embeds = None) \<and>
   (\<exists>evs. trace (snd (collate_fn env batch s)) = trace s @ evs \<and>
          (\<forall>i. Compute_time_ids i \<notin> set evs)) \<and>
   (\<forall>result. fst (collate_fn env batch s) = Inr result \<longrightarrow>
       add_text_embeds result = None \<and> batch_time_ids result = None)"
proof -
  assume single: "model_type (get_embedcache env) \<noteq> ''sdxl''"
  have a: "\<forall>captions st embeds st'.
       compute_prompt_embeddings env captions st = (Inr embeds, st') \<longrightarrow> snd embeds = None"
    using compute_prompt_embeddings_single [OF single] by blast
  from collate_fn_trace [of env batch s] single
  have b: "\<exists>evs. trace (snd (collate_fn env batch s)) = trace s @ evs \<and>
          (\<forall>i. Compute_time_ids i \<notin> set evs)"
    by blast
  have c: "\<forall>result. fst (collate_fn env batch s) = Inr result \<longrightarrow>
       add_text_embeds result = None \<and> batch_time_ids result = None"
    using collate_fn_single_record [OF single] by blast
  from a b c show ?thesis by blast
qed

text \<open>The concrete batch under a variant other than \<open>sdxl\<close>: the call succeeds, with no
  pooled embeddings and no time ids, and its events hold no call of \<open>compute_time_ids\<close>.\<close>

theorem collate_fn_single_variant_witness:
  "model_type (get_embedcache (demo_env (Some 1) ''legacy'')) \<noteq> ''sdxl'' \<and>
   fst (collate_fn (demo_env (Some 1) ''legacy'') [[0, 1, 2]] demo_state) =
     Inr \<lparr>latent_batch = demo_stacked, prompt_embeds = [[], [], []], add_text_embeds = None,
          batch_time_ids = None, batch_luminance = 2 / 5\<rparr> \<and>
   (\<forall>i. Compute_time_ids i \<notin>
      set (trace (snd (collate_fn (demo_env (Some 1) ''legacy'') [[0, 1, 2]] demo_state))))"
proof -
  have single: "model_type (get_embedcache (demo_env (Some 1) ''legacy'')) \<noteq> ''sdxl''"
    by (simp add: demo_env_def)
  have ok: "fst (collate_fn (demo_env (Some 1) ''legacy'') [[0, 1, 2]] demo_state) =
     Inr \<lparr>latent_batch = demo_stacked, prompt_embeds = [[], [], []], add_text_embeds = None,
          batch_time_ids = None, batch_luminance = 2 / 5\<rparr>"
    by (simp only: demo_collate_legacy fst_conv)
  have t0: "trace demo_state = []" by (simp add: demo_state_def)
  from collate_fn_single_variant [OF single, of "[[0, 1, 2]]" demo_state] t0
  have "\<forall>i. Compute_time_ids i \<notin>
      set (trace (snd (collate_fn (demo_env (Some 1) ''legacy'') [[0, 1, 2]] demo_state)))"
    by auto
  with single ok show ?thesis by blast
qed

text \<open>
  C5. For one batch group \<open>examples\<close>. With dropout probability 0, no random number is
  drawn, no caption of any example changes, every example of the group has
  \<open>drop_conditioning\<close> set to false and no other example is touched. With dropout
  probability 1 and every draw in \<open>[0, 1)\<close>, every example of the group has its caption
  cleared and \<open>drop_conditioning\<close> set to true, and the time ids of a returned record are
  all zero.
\<close>

theorem collate_fn_dropout_extremes:
  "(caption_dropout_probability env = Some 0 \<longrightarrow>
      draws (snd (collate_fn env [examples] s)) = draws s \<and>
      (\<forall>a. instance_prompt_text (heap (snd (collate_fn env [examples] s)) a)
             = instance_prompt_text (heap s a)) \<and>
      (\<forall>a\<in>set examples.
          drop_conditioning (heap (snd (collate_fn env [examples] s)) a) = Some False) \<and>
      (\<forall>a. a \<notin> set examples \<longrightarrow> heap (snd (collate_fn env [examples] s)) a = heap s a)) \<and>
   (caption_dropout_probability env = Some 1 \<and>
    (\<forall>k. 0 \<le> random_rand env k \<and> random_rand env k < 1) \<longrightarrow>
      (\<forall>a\<in>set examples.
          instance_prompt_text (heap (snd (collate_fn env [examples] s)) a) = [] \<and>
          drop_conditioning (heap (snd (collate_fn env [examples] s)) a) = Some True) \<and>
      (\<forall>result time_ids.
          fst (collate_fn env [examples] s) = Inr result \<and>
          batch_time_ids result = Some time_ids \<longrightarrow>
          list_all (\<lambda>x. x = 0) (data time_ids)))"
proof -
  let ?s' = "snd (collate_fn env [examples] s)"
  let ?d = "snd (dropout_loop env examples None s)"
  have hp: "heap ?s' = heap ?d" and dr: "draws ?s' = draws ?d"
    using collate_fn_heap [of "[examples]" env s] by simp_all
  have zero: "draws ?s' = draws s \<and>
      (\<forall>a. instance_prompt_text (heap ?s' a) = instance_prompt_text (heap s a)) \<and>
      (\<forall>a\<in>set examples. drop_conditioning (heap ?s' a) = Some False) \<and>
      (\<forall>a. a \<notin> set examples \<longrightarrow> heap ?s' a = heap s a)"
    if p: "caption_dropout_probability env = Some 0"
  proof -
    from dropout_loop_zero [OF p, of examples None s] show ?thesis
      unfolding hp dr by auto
  qed
  have one: "(\<forall>a\<in>set examples. instance_prompt_text (heap ?s' a) = [] \<and>
                 drop_conditioning (heap ?s' a) = Some True) \<and>
      (\<forall>result time_ids.
          fst (collate_fn env [examples] s) = Inr result \<and>
          batch_time_ids result = Some time_ids \<longrightarrow>
          list_all (\<lambda>x. x = 0) (data time_ids))"
    if p: "caption_dropout_probability env = Some 1"
      and r: "\<forall>k. 0 \<le> random_rand env k \<and> random_rand env k < 1"
  proof -
    from r have r1: "\<forall>k. random_rand env k < 1" by blast
    from dropout_loop_one [OF p _ r1, of examples None s]
    have flags: "\<forall>a\<in>set examples. instance_prompt_text (heap ?d a) = [] \<and>
                   drop_conditioning (heap ?d a) = Some True"
      by auto
    have "list_all (\<lambda>x. x = 0) (data time_ids)"
      if ok: "fst (collate_fn env [examples] s) = Inr result"
        and t: "batch_time_ids result = Some time_ids" for result time_ids
      using collate_fn_time_ids_zero [OF ok t] flags by blast
    with flags show ?thesis unfolding hp by blast
  qed
  from zero one show ?thesis by blast
qed

text \<open>The concrete batch, whose draws are all one half. With probability 0 the three
  flag of example 1 is false and its caption is kept; with probability 1 the call
  succeeds, the caption of example 1 is empty, its flag is true and the time ids are
  eighteen zeros.\<close>

theorem collate_fn_dropout_extremes_witness:
  "caption_dropout_probability (demo_env (Some 0) ''sdxl'') = Some 0 \<and>
   drop_conditioning
     (heap (snd (collate_fn (demo_env (Some 0) ''sdxl'') [[0, 1, 2]] demo_state)) 1)
     = Some False \<and>
   instance_prompt_text
     (heap (snd (collate_fn (demo_env (Some 0) ''sdxl'') [[0, 1, 2]] demo_state)) 1)
     = ''a photo'' \<and>
   caption_dropout_probability (demo_env (Some 1) ''sdxl'') = Some 1 \<and>
   (\<forall>k. 0 \<le> random_rand (demo_env (Some 1) ''sdxl'') k \<and>
        random_rand (demo_env (Some 1) ''sdxl'') k < 1) \<and>
   instance_prompt_text
     (heap (snd (collate_fn (demo_env (Some 1) ''sdxl'') [[0, 1, 2]] demo_state)) 1) = [] \<and>
   drop_conditioning
     (heap (snd (collate_fn (demo_env (Some 1) ''sdxl'') [[0, 1, 2]] demo_state)) 1)
     = Some True \<and>
   fst (collate_fn (demo_env (Some 1) ''sdxl'') [[0, 1, 2]] demo_state) =
     Inr \<lparr>latent_batch = demo_stacked,
          prompt_embeds = [[], [], []],
          add_text_embeds = Some [[], [], []],
          batch_time_ids = Some \<lparr>shape = [3, 1, 6],
                                  data = [0, 0, 0, 0, 0, 0, 0, 0, 0, 0, 0, 0, 0, 0, 0, 0, 0, 0]\<rparr>,
          batch_luminance = 2 / 5\<rparr> \<and>
   list_all (\<lambda>x. x = 0) [0, 0, 0, 0, 0, 0, 0, 0, 0, 0, 0, 0, 0, 0, 0, 0, 0, 0 :: int]"
proof -
  let ?result = "\<lparr>latent_batch = demo_stacked,
          prompt_embeds = [[], [], []],
          add_text_embeds = Some [[], [], []],
          batch_time_ids = Some \<lparr>shape = [3, 1, 6],
                                  data = [0, 0, 0, 0, 0, 0, 0, 0, 0, 0, 0, 0, 0, 0, 0, 0, 0, 0 :: int]\<rparr>,
          batch_luminance = 2 / 5\<rparr> :: (int, string list, int) batch_record"
  have p0: "caption_dropout_probability (demo_env (Some 0) ''sdxl'') = Some 0"
    by (simp add: demo_env_def)
  have p1: "caption_dropout_probability (demo_env (Some 1) ''sdxl'') = Some 1"
    by (simp add: demo_env_def)
  have r: "\<forall>k. 0 \<le> random_rand (demo_env (Some 1) ''sdxl'') k \<and>
               random_rand (demo_env (Some 1) ''sdxl'') k < 1"
    by (simp add: demo_env_def)
  have ok: "fst (collate_fn (demo_env (Some 1) ''sdxl'') [[0, 1, 2]] demo_state) = Inr ?result"
    by (simp only: demo_collate_one fst_conv)
  have t: "batch_time_ids ?result
             = Some \<lparr>shape = [3, 1, 6],
                     data = [0, 0, 0, 0, 0, 0, 0, 0, 0, 0, 0, 0, 0, 0, 0, 0, 0, 0]\<rparr>"
    by simp
  note z = collate_fn_dropout_extremes
             [where env = "demo_env (Some 0) ''sdxl''" and examples = "[0, 1, 2]" and s = demo_state]
  note o = collate_fn_dropout_extremes
             [where env = "demo_env (Some 1) ''sdxl''" and examples = "[0, 1, 2]" and s = demo_state]
  have mem: "1 \<in> set [0, 1, 2 :: nat]" by simp
  from z p0 mem have z1: "drop_conditioning
      (heap (snd (collate_fn (demo_env (Some 0) ''sdxl'') [[0, 1, 2]] demo_state)) 1)
      = Some False"
    by blast
  from z p0 have "instance_prompt_text
     (heap (snd (collate_fn (demo_env (Some 0) ''sdxl'') [[0, 1, 2]] demo_state)) 1)
     = instance_prompt_text (heap demo_state 1)"
    by blast
  then have z2: "instance_prompt_text
     (heap (snd (collate_fn (demo_env (Some 0) ''sdxl'') [[0, 1, 2]] demo_state)) 1)
     = ''a photo''"
    by (simp add: demo_state_def demo_heap_def)
  from o p1 r mem have o1: "instance_prompt_text
        (heap (snd (collate_fn (demo_env (Some 1) ''sdxl'') [[0, 1, 2]] demo_state)) 1) = [] \<and>
      drop_conditioning
        (heap (snd (collate_fn (demo_env (Some 1) ''sdxl'') [[0, 1, 2]] demo_state)) 1)
        = Some True"
    by blast
  from o p1 r ok t
  have "list_all (\<lambda>x. x = 0)
          (data \<lparr>shape = [3, 1, 6],
                 data = [0, 0, 0, 0, 0, 0, 0, 0, 0, 0, 0, 0, 0, 0, 0, 0, 0, 0 :: int]\<rparr>)"
    by blast
  then have o2: "list_all (\<lambda>x. x = 0) [0, 0, 0, 0, 0, 0, 0, 0, 0, 0, 0, 0, 0, 0, 0, 0, 0, 0 :: int]"
    by simp
  from p0 z1 z2 p1 r o1 ok o2 show ?thesis by blast
qed

end
